theory Spec2Isabelle
  imports Main "HOL-Library.Word"
begin

unbundle bit_operations_syntax

section \<open>Memory, pointers and the structures of byte\_buf.h\<close>

text \<open>
  The target is a 64-bit platform: \<open>size_t\<close> and every pointer are 64-bit words, a
  byte is an 8-bit word, and the null pointer is the word 0. Pointer arithmetic and
  \<open>size_t\<close> arithmetic wrap around as word arithmetic does.
\<close>

type_synonym u8 = "8 word"
type_synonym size_t = "64 word"
type_synonym addr = "64 word"
type_synonym memory = "addr \<Rightarrow> u8"

text \<open>\<open>struct aws_byte_cursor { size_t len; uint8_t *ptr; }\<close>\<close>

record aws_byte_cursor =
  len :: size_t
  ptr :: addr

text \<open>
  \<open>struct aws_byte_buf { size_t len; uint8_t *buffer; size_t capacity;
  struct aws_allocator *allocator; }\<close>. The field \<open>len\<close> is written \<open>len_buf\<close> here,
  since the cursor already has a field of that name.
\<close>

record aws_byte_buf =
  len_buf :: size_t
  buffer :: addr
  capacity :: size_t
  allocator :: addr

text \<open>\<open>AWS_ZERO_STRUCT\<close> on a cursor.\<close>

definition zero_cursor :: aws_byte_cursor where
  "zero_cursor = \<lparr>len = 0, ptr = 0\<rparr>"

text \<open>The bytes a cursor views: \<open>n\<close> bytes of memory from address \<open>p\<close> on.\<close>

definition read_bytes :: "memory \<Rightarrow> addr \<Rightarrow> nat \<Rightarrow> u8 list" where
  "read_bytes m p n = map (\<lambda>i. m (p + of_nat i)) [0..<n]"

definition cursor_bytes :: "memory \<Rightarrow> aws_byte_cursor \<Rightarrow> u8 list" where
  "cursor_bytes m c = read_bytes m (ptr c) (unat (len c))"

text \<open>The memory \<open>m\<close> with the byte list \<open>bs\<close> written from address \<open>p\<close> on.\<close>

fun store_bytes :: "memory \<Rightarrow> addr \<Rightarrow> u8 list \<Rightarrow> memory" where
  "store_bytes m p [] = m"
| "store_bytes m p (b # bs) = store_bytes (m(p := b)) (p + 1) bs"

definition bytes_of :: "string \<Rightarrow> u8 list" where
  "bytes_of s = map of_char s"

subsection \<open>The C library functions the code calls\<close>

text \<open>
  \<open>memchr(s, c, n)\<close>: the address of the first of the \<open>n\<close> bytes from \<open>s\<close> on that
  equals \<open>c\<close> (converted to \<open>unsigned char\<close>), the null pointer when there is none.
\<close>

fun memchr :: "memory \<Rightarrow> addr \<Rightarrow> u8 \<Rightarrow> nat \<Rightarrow> addr" where
  "memchr m s c 0 = 0"
| "memchr m s c (Suc n) = (if m s = c then s else memchr m (s + 1) c n)"

text \<open>\<open>memcmp(a, b, n)\<close>: 0 when the two ranges hold the same bytes, else the sign of
  the first difference.\<close>

fun memcmp :: "memory \<Rightarrow> addr \<Rightarrow> addr \<Rightarrow> nat \<Rightarrow> int" where
  "memcmp m a b 0 = 0"
| "memcmp m a b (Suc n) =
     (if m a = m b then memcmp m (a + 1) (b + 1) n
      else if m a < m b then - 1 else 1)"

text \<open>
  \<open>memcpy(dst, src, n)\<close>: every byte of the destination range gets the byte the
  source range held before the call (ranges that overlap are undefined behaviour in C).
\<close>

definition memcpy :: "memory \<Rightarrow> addr \<Rightarrow> addr \<Rightarrow> size_t \<Rightarrow> memory" where
  "memcpy m dst src n = (\<lambda>a. if a - dst < n then m (src + (a - dst)) else m a)"

subsection \<open>The heap, the allocator and the last-error slot\<close>

text \<open>The error codes the code raises.\<close>

datatype aws_error =
  AWS_ERROR_OOM | AWS_ERROR_DEST_COPY_TOO_SMALL | AWS_ERROR_INVALID_ARGUMENT
  | AWS_ERROR_SHORT_BUFFER

text \<open>
  The state the functions work on: the bytes of memory, the blocks the allocators have
  handed out and not yet taken back (start address and size), and the last error raised.
  The structures themselves are passed to the functions and returned by them.
\<close>

record heap =
  mem :: memory
  blocks :: "addr \<rightharpoonup> size_t"
  last_error :: "aws_error option"

text \<open>
  Modelled from the spec: \<open>AWS_OP_SUCCESS\<close> and \<open>AWS_OP_ERR\<close>, the two-valued
  success/error signal, are declared in a header that is not among the sources. Success
  is 0 (the callers test the result for being non-zero), the error signal is -1.
\<close>

definition AWS_OP_SUCCESS :: int where "AWS_OP_SUCCESS = 0"
definition AWS_OP_ERR :: int where "AWS_OP_ERR = - 1"

text \<open>
  A failed \<open>assert\<close> aborts the program: the assertions are modelled as compiled in
  (no \<open>NDEBUG\<close>), and a function that has one returns either a fault or its result.
\<close>

datatype fault = Assertion_failed

text \<open>
  Modelled from the spec: \<open>aws_raise_error\<close> is declared in error.h, which is not among
  the sources. It stores the code in the process-wide last-error slot and returns the
  error signal.
\<close>

definition aws_raise_error :: "heap \<Rightarrow> aws_error \<Rightarrow> int \<times> heap" where
  "aws_raise_error h e = (AWS_OP_ERR, h\<lparr>last_error := Some e\<rparr>)"

text \<open>
  Modelled from the spec: the allocator (\<open>aws_mem_acquire\<close>, \<open>aws_mem_release\<close>) is an
  injected capability, \<open>acquire(size) -> pointer|null\<close> and \<open>release(pointer)\<close>. Which
  address an allocator hands out, and whether it fails, is the parameter \<open>acquire\<close>, a
  function of the allocator handle, the heap and the size; the null pointer is failure.
\<close>

type_synonym acquire_fn = "addr \<Rightarrow> heap \<Rightarrow> size_t \<Rightarrow> addr"

definition aws_mem_acquire :: "acquire_fn \<Rightarrow> heap \<Rightarrow> addr \<Rightarrow> size_t \<Rightarrow> addr \<times> heap" where
  "aws_mem_acquire acquire h allocator' size' =
     (let p = acquire allocator' h size'
      in if p = 0 then (0, h) else (p, h\<lparr>blocks := (blocks h)(p \<mapsto> size')\<rparr>))"

text \<open>
  Modelled from the spec: \<open>aws_mem_release\<close>, the capability's \<open>release(pointer)\<close>,
  takes the block at \<open>p\<close> back.
\<close>

definition aws_mem_release :: "heap \<Rightarrow> addr \<Rightarrow> addr \<Rightarrow> heap" where
  "aws_mem_release h allocator' p = h\<lparr>blocks := (blocks h)(p := None)\<rparr>"

text \<open>Memory of zero bytes, and the heap with that memory, no block and no error.\<close>

definition zero_memory :: memory where
  "zero_memory = (\<lambda>_. 0)"

definition empty_heap :: heap where
  "empty_heap = \<lparr>mem = zero_memory, blocks = Map.empty, last_error = None\<rparr>"

text \<open>An allocator that always fails, and one that hands out the address \<open>p\<close>.\<close>

definition failing_allocator :: acquire_fn where
  "failing_allocator allocator' h size' = 0"

definition allocator_at :: "addr \<Rightarrow> acquire_fn" where
  "allocator_at p allocator' h size' = p"

text \<open>
  Modelled from the spec: \<open>aws_secure_zero\<close> is not among the sources. It overwrites the
  \<open>n\<close> bytes from \<open>p\<close> on with zero.
\<close>

definition aws_secure_zero :: "memory \<Rightarrow> addr \<Rightarrow> size_t \<Rightarrow> memory" where
  "aws_secure_zero m p n = (\<lambda>a. if a - p < n then 0 else m a)"

section \<open>Byte buffers\<close>

text \<open>\<open>aws_byte_buf_init\<close>: the return code, the new value of \<open>*buf\<close> and the new heap.\<close>

definition aws_byte_buf_init ::
  "acquire_fn \<Rightarrow> heap \<Rightarrow> aws_byte_buf \<Rightarrow> addr \<Rightarrow> size_t \<Rightarrow> int \<times> aws_byte_buf \<times> heap" where
  "aws_byte_buf_init acquire h buf allocator' capacity' =
     (case aws_mem_acquire acquire h allocator' capacity' of
        (p, h') \<Rightarrow>
          let buf1 = buf\<lparr>buffer := p\<rparr>
          in if buffer buf1 = 0 then (AWS_OP_ERR, buf1, h')
             else (AWS_OP_SUCCESS,
                   buf1\<lparr>len_buf := 0, capacity := capacity', allocator := allocator'\<rparr>, h'))"

definition aws_byte_buf_clean_up :: "heap \<Rightarrow> aws_byte_buf \<Rightarrow> aws_byte_buf \<times> heap" where
  "aws_byte_buf_clean_up h buf =
     (let h' = (if allocator buf \<noteq> 0 \<and> buffer buf \<noteq> 0
                then aws_mem_release h (allocator buf) (buffer buf) else h)
      in (buf\<lparr>allocator := 0, buffer := 0, len_buf := 0, capacity := 0\<rparr>, h'))"

definition aws_byte_buf_secure_zero :: "heap \<Rightarrow> aws_byte_buf \<Rightarrow> aws_byte_buf \<times> heap" where
  "aws_byte_buf_secure_zero h buf =
     (let h' = (if buffer buf \<noteq> 0
                then h\<lparr>mem := aws_secure_zero (mem h) (buffer buf) (capacity buf)\<rparr> else h)
      in (buf\<lparr>len_buf := 0\<rparr>, h'))"

definition aws_byte_buf_clean_up_secure :: "heap \<Rightarrow> aws_byte_buf \<Rightarrow> aws_byte_buf \<times> heap" where
  "aws_byte_buf_clean_up_secure h buf =
     (case aws_byte_buf_secure_zero h buf of (buf', h') \<Rightarrow> aws_byte_buf_clean_up h' buf')"

text \<open>
  The comparisons take pointers to structures that may be null: \<open>None\<close> is the null
  pointer. In the branch \<open>!a || !b\<close> the result \<open>a == b\<close> is true exactly when both
  are null.
\<close>

definition aws_byte_buf_eq :: "memory \<Rightarrow> aws_byte_buf option \<Rightarrow> aws_byte_buf option \<Rightarrow> bool" where
  "aws_byte_buf_eq m a b =
     (case a of
        None \<Rightarrow> b = None
      | Some a' \<Rightarrow>
          (case b of
             None \<Rightarrow> False
           | Some b' \<Rightarrow>
               if len_buf a' \<noteq> len_buf b' then False
               else if buffer a' = 0 \<or> buffer b' = 0 then buffer a' = buffer b'
               else memcmp m (buffer a') (buffer b') (unat (len_buf a')) = 0))"

text \<open>
  \<open>aws_byte_buf_init_copy_from_cursor\<close>. \<open>dest\<close> is the structure passed, so only
  \<open>assert(allocator)\<close> can fail; \<open>sizeof(uint8_t)\<close> is 1.
\<close>

definition aws_byte_buf_init_copy_from_cursor ::
  "acquire_fn \<Rightarrow> heap \<Rightarrow> aws_byte_buf \<Rightarrow> addr \<Rightarrow> aws_byte_cursor
    \<Rightarrow> fault + int \<times> aws_byte_buf \<times> heap" where
  "aws_byte_buf_init_copy_from_cursor acquire h dest allocator' src =
     (if allocator' = 0 then Inl Assertion_failed
      else
        let dest1 = dest\<lparr>len_buf := 0, capacity := 0, allocator := 0\<rparr>
        in if ptr src = 0 then Inr (AWS_OP_SUCCESS, dest1\<lparr>buffer := 0\<rparr>, h)
           else
             (case aws_mem_acquire acquire h allocator' (1 * len src) of
                (p, h') \<Rightarrow>
                  let dest2 = dest1\<lparr>buffer := p\<rparr>
                  in if buffer dest2 = 0 then Inr (AWS_OP_ERR, dest2, h')
                     else Inr (AWS_OP_SUCCESS,
                            dest2\<lparr>len_buf := len src, capacity := len src,
                                   allocator := allocator'\<rparr>,
                            h'\<lparr>mem := memcpy (mem h') (buffer dest2) (ptr src) (len src)\<rparr>)))"

text \<open>\<open>aws_byte_buf_append\<close>: both assertions, then the capacity check, then the copy.\<close>

definition aws_byte_buf_append ::
  "heap \<Rightarrow> aws_byte_buf \<Rightarrow> aws_byte_cursor \<Rightarrow> fault + int \<times> aws_byte_buf \<times> heap" where
  "aws_byte_buf_append h to from =
     (if ptr from = 0 then Inl Assertion_failed
      else if buffer to = 0 then Inl Assertion_failed
      else if capacity to - len_buf to < len from then
        (case aws_raise_error h AWS_ERROR_DEST_COPY_TOO_SMALL of (rc, h') \<Rightarrow> Inr (rc, to, h'))
      else Inr (AWS_OP_SUCCESS,
             to\<lparr>len_buf := len_buf to + len from\<rparr>,
             h\<lparr>mem := memcpy (mem h) (buffer to + len_buf to) (ptr from) (len from)\<rparr>))"

section \<open>Byte cursors\<close>

text \<open>
  Modelled from the spec: \<open>aws_byte_cursor_from_buf\<close> is defined in byte\_buf.h, which is
  not among the sources. It is the view of the buffer's used region.
\<close>

definition aws_byte_cursor_from_buf :: "aws_byte_buf \<Rightarrow> aws_byte_cursor" where
  "aws_byte_cursor_from_buf buf = \<lparr>len = len_buf buf, ptr = buffer buf\<rparr>"

definition aws_byte_cursor_eq ::
  "memory \<Rightarrow> aws_byte_cursor option \<Rightarrow> aws_byte_cursor option \<Rightarrow> bool" where
  "aws_byte_cursor_eq m a b =
     (case a of
        None \<Rightarrow> b = None
      | Some a' \<Rightarrow>
          (case b of
             None \<Rightarrow> False
           | Some b' \<Rightarrow>
               if len a' \<noteq> len b' then False
               else if ptr a' = 0 \<or> ptr b' = 0 then ptr a' = ptr b'
               else memcmp m (ptr a') (ptr b') (unat (len a')) = 0))"

definition aws_byte_cursor_eq_byte_buf ::
  "memory \<Rightarrow> aws_byte_cursor option \<Rightarrow> aws_byte_buf option \<Rightarrow> bool" where
  "aws_byte_cursor_eq_byte_buf m a b =
     (case a of
        None \<Rightarrow> b = None
      | Some a' \<Rightarrow>
          (case b of
             None \<Rightarrow> False
           | Some b' \<Rightarrow>
               if len a' \<noteq> len_buf b' then False
               else if ptr a' = 0 \<or> buffer b' = 0 then ptr a' = buffer b'
               else memcmp m (ptr a') (buffer b') (unat (len a')) = 0))"

text \<open>
  \<open>s_tolower_table\<close>, entry by entry and line by line; the character constants
  \<open>'a'\<close> to \<open>'z'\<close> of the source are written as their codes 97 to 122.
\<close>

definition s_tolower_table :: "u8 list" where
  "s_tolower_table =
    [0, 1, 2, 3, 4, 5, 6, 7, 8, 9, 10, 11, 12, 13, 14, 15, 16, 17, 18, 19, 20, 21]
     @ [22, 23, 24, 25, 26, 27, 28, 29, 30, 31, 32, 33, 34, 35, 36, 37, 38, 39, 40, 41, 42, 43]
     @ [44, 45, 46, 47, 48, 49, 50, 51, 52, 53, 54, 55, 56, 57, 58, 59, 60, 61, 62, 63, 64, 97]
     @ [98, 99, 100, 101, 102, 103, 104, 105, 106, 107, 108, 109, 110, 111, 112, 113, 114, 115, 116, 117, 118, 119]
     @ [120, 121, 122, 91, 92, 93, 94, 95, 96, 97, 98, 99, 100, 101, 102, 103, 104, 105, 106, 107, 108, 109]
     @ [110, 111, 112, 113, 114, 115, 116, 117, 118, 119, 120, 121, 122, 123, 124, 125, 126, 127, 128, 129, 130, 131]
     @ [132, 133, 134, 135, 136, 137, 138, 139, 140, 141, 142, 143, 144, 145, 146, 147, 148, 149, 150, 151, 152, 153]
     @ [154, 155, 156, 157, 158, 159, 160, 161, 162, 163, 164, 165, 166, 167, 168, 169, 170, 171, 172, 173, 174, 175]
     @ [176, 177, 178, 179, 180, 181, 182, 183, 184, 185, 186, 187, 188, 189, 190, 191, 192, 193, 194, 195, 196, 197]
     @ [198, 199, 200, 201, 202, 203, 204, 205, 206, 207, 208, 209, 210, 211, 212, 213, 214, 215, 216, 217, 218, 219]
     @ [220, 221, 222, 223, 224, 225, 226, 227, 228, 229, 230, 231, 232, 233, 234, 235, 236, 237, 238, 239, 240, 241]
     @ [242, 243, 244, 245, 246, 247, 248, 249, 250, 251, 252, 253, 254, 255]"

text \<open>The loop of \<open>aws_byte_cursor_eq_case_insensitive\<close>, from index \<open>i\<close> on.\<close>

function eq_case_insensitive_loop ::
  "memory \<Rightarrow> aws_byte_cursor \<Rightarrow> aws_byte_cursor \<Rightarrow> size_t \<Rightarrow> bool" where
  "eq_case_insensitive_loop m a b i =
     (if i < len a then
        if s_tolower_table ! unat (m (ptr a + i)) \<noteq> s_tolower_table ! unat (m (ptr b + i))
        then False
        else eq_case_insensitive_loop m a b (i + 1)
      else True)"
  by pat_completeness auto
termination
proof (relation "measure (\<lambda>(m, a, b, i). unat (len a) - unat i)")
  show "wf (measure (\<lambda>(m, a, b, i). unat (len a) - unat i))"
    by simp
next
  fix m :: memory and a b :: aws_byte_cursor and i :: size_t
  assume "i < len a"
  then have less: "unat i < unat (len a)"
    by (simp add: word_less_nat_alt)
  moreover have "unat (len a) < 2 ^ 64"
    using unsigned_less [of "len a"] by simp
  ultimately have "unat (i + 1) = unat i + 1"
    by (simp add: unat_word_ariths)
  with less show "((m, a, b, i + 1), (m, a, b, i))
      \<in> measure (\<lambda>(m, a, b, i). unat (len a) - unat i)"
    by simp
qed

declare eq_case_insensitive_loop.simps [simp del]

definition aws_byte_cursor_eq_case_insensitive ::
  "memory \<Rightarrow> aws_byte_cursor option \<Rightarrow> aws_byte_cursor option \<Rightarrow> bool" where
  "aws_byte_cursor_eq_case_insensitive m a b =
     (case a of
        None \<Rightarrow> b = None
      | Some a' \<Rightarrow>
          (case b of
             None \<Rightarrow> False
           | Some b' \<Rightarrow>
               if len a' \<noteq> len b' then False else eq_case_insensitive_loop m a' b' 0))"

definition fnv_offset_basis :: "64 word" where
  "fnv_offset_basis = 0xcbf29ce484222325"

definition fnv_prime :: "64 word" where
  "fnv_prime = 0x100000001b3"

text \<open>The loop of \<open>aws_hash_byte_cursor_ptr_case_insensitive\<close>: \<open>i\<close> runs to \<open>end\<close>.\<close>

function hash_loop :: "memory \<Rightarrow> addr \<Rightarrow> addr \<Rightarrow> 64 word \<Rightarrow> 64 word" where
  "hash_loop m i end' hash =
     (if i \<noteq> end' then
        hash_loop m (i + 1) end'
          ((hash XOR ucast (s_tolower_table ! unat (m i))) * fnv_prime)
      else hash)"
  by pat_completeness auto
termination
proof (relation "measure (\<lambda>(m, i, end', hash). unat (end' - i))")
  show "wf (measure (\<lambda>(m, i, end', hash). unat (end' - i)))"
    by simp
next
  fix m :: memory and i end' hash :: "64 word"
  assume "i \<noteq> end'"
  then have "end' - i \<noteq> 0"
    by simp
  then have "unat (end' - i - 1) < unat (end' - i)"
    by (simp add: unat_minus_one unat_gt_0)
  moreover have "end' - (i + 1) = end' - i - 1"
    by simp
  ultimately have "unat (end' - (i + 1)) < unat (end' - i)"
    by (simp only:)
  then show "((m, i + 1, end', (hash XOR ucast (s_tolower_table ! unat (m i))) * fnv_prime),
      (m, i, end', hash)) \<in> measure (\<lambda>(m, i, end', hash). unat (end' - i))"
    by simp
qed

declare hash_loop.simps [simp del]

definition aws_hash_byte_cursor_ptr_case_insensitive :: "memory \<Rightarrow> aws_byte_cursor \<Rightarrow> 64 word" where
  "aws_hash_byte_cursor_ptr_case_insensitive m cursor =
     hash_loop m (ptr cursor) (ptr cursor + len cursor) fnv_offset_basis"

subsection \<open>Splitting a cursor on a delimiter\<close>

text \<open>
  The delimiter is a \<open>char\<close>, whose signedness is the platform's: \<open>char_signed\<close> says
  which. The comparison \<open>*substr->ptr == split_on\<close> promotes both sides to \<open>int\<close>.
\<close>

definition char_to_int :: "bool \<Rightarrow> u8 \<Rightarrow> int" where
  "char_to_int char_signed c = (if char_signed then sint c else uint c)"

text \<open>The tail of \<open>aws_byte_cursor_next_split\<close>: the \<open>memchr\<close> and the update of the
  length.\<close>

definition find_delimiter :: "memory \<Rightarrow> u8 \<Rightarrow> aws_byte_cursor \<Rightarrow> aws_byte_cursor" where
  "find_delimiter m split_on substr =
     (let new_location = memchr m (ptr substr) split_on (unat (len substr))
      in if new_location \<noteq> 0 then substr\<lparr>len := new_location - ptr substr\<rparr> else substr)"

text \<open>\<open>aws_byte_cursor_next_split\<close>: the result is the returned flag and the new value of
  \<open>*substr\<close>.\<close>

definition aws_byte_cursor_next_split ::
  "bool \<Rightarrow> memory \<Rightarrow> aws_byte_cursor \<Rightarrow> u8 \<Rightarrow> aws_byte_cursor \<Rightarrow> bool \<times> aws_byte_cursor" where
  "aws_byte_cursor_next_split char_signed m input_str split_on substr0 =
     (let first_run = (ptr substr0 = 0);
          substr1 = (if first_run then substr0\<lparr>ptr := ptr input_str, len := 0\<rparr> else substr0)
      in if ptr input_str + len input_str < ptr substr1 then (False, zero_cursor)
         else
           let substr2 = substr1\<lparr>ptr := ptr substr1 + len substr1\<rparr>;
               substr3 = substr2\<lparr>len := len input_str - (ptr substr2 - ptr input_str)\<rparr>
           in if \<not> first_run \<and> len substr3 = 0 then (False, zero_cursor)
              else if \<not> first_run \<and> uint (m (ptr substr3)) = char_to_int char_signed split_on
              then
                let substr4 = substr3\<lparr>ptr := ptr substr3 + 1, len := len substr3 - 1\<rparr>
                in if len substr4 = 0 then (True, substr4)
                   else (True, find_delimiter m split_on substr4)
              else (True, find_delimiter m split_on substr3))"

text \<open>
  The loop of \<open>aws_byte_cursor_split_on_char_n\<close>. The output array list is a value of
  any type \<open>'l\<close>; \<open>aws_array_list_push_back\<close>, which is not among the sources, is the
  parameter \<open>push_back\<close>, giving its return code and the new list. The loop ends when
  \<open>aws_byte_cursor_next_split\<close> returns false or the split count passes
  \<open>max_splits\<close>; a run that never ends has the value \<open>None\<close>.
\<close>

partial_function (option) split_loop ::
  "bool \<Rightarrow> ('l \<Rightarrow> aws_byte_cursor \<Rightarrow> int \<times> 'l) \<Rightarrow> memory \<Rightarrow> aws_byte_cursor \<Rightarrow> u8 \<Rightarrow> size_t
    \<Rightarrow> size_t \<Rightarrow> aws_byte_cursor \<Rightarrow> 'l \<Rightarrow> (int \<times> 'l) option" where
  "split_loop char_signed push_back m input_str split_on max_splits split_count substr output =
     (if split_count \<le> max_splits then
        (case aws_byte_cursor_next_split char_signed m input_str split_on substr of
           (has_more, substr') \<Rightarrow>
             if has_more then
               (let substr'' =
                      (if split_count = max_splits
                       then substr'\<lparr>len := len input_str - (ptr substr' - ptr input_str)\<rparr>
                       else substr')
                in case push_back output substr'' of
                     (rc, output') \<Rightarrow>
                       if rc \<noteq> 0 then Some (AWS_OP_ERR, output')
                       else split_loop char_signed push_back m input_str split_on max_splits
                              (split_count + 1) substr'' output')
             else Some (AWS_OP_SUCCESS, output))
      else Some (AWS_OP_SUCCESS, output))"

declare split_loop.simps [code]

text \<open>
  \<open>aws_byte_cursor_split_on_char_n\<close>. \<open>output_item_size\<close> is \<open>output->item_size\<close>, and
  \<open>sizeof(struct aws_byte_cursor)\<close> is 16. The pointers \<open>input_str\<close> and \<open>output\<close>
  are the values passed, so only \<open>input_str->ptr\<close> can fail the first assertion.
\<close>

definition aws_byte_cursor_split_on_char_n ::
  "bool \<Rightarrow> ('l \<Rightarrow> aws_byte_cursor \<Rightarrow> int \<times> 'l) \<Rightarrow> size_t \<Rightarrow> memory \<Rightarrow> aws_byte_cursor \<Rightarrow> u8
    \<Rightarrow> size_t \<Rightarrow> 'l \<Rightarrow> (fault + int \<times> 'l) option" where
  "aws_byte_cursor_split_on_char_n char_signed push_back output_item_size m input_str split_on n output =
     (if ptr input_str = 0 then Some (Inl Assertion_failed)
      else if output_item_size < 16 then Some (Inl Assertion_failed)
      else
        let max_splits = (if 0 < n then n else - 1)
        in map_option Inr
             (split_loop char_signed push_back m input_str split_on max_splits 0 zero_cursor
                output))"

definition aws_byte_cursor_split_on_char ::
  "bool \<Rightarrow> ('l \<Rightarrow> aws_byte_cursor \<Rightarrow> int \<times> 'l) \<Rightarrow> size_t \<Rightarrow> memory \<Rightarrow> aws_byte_cursor \<Rightarrow> u8
    \<Rightarrow> 'l \<Rightarrow> (fault + int \<times> 'l) option" where
  "aws_byte_cursor_split_on_char char_signed push_back output_item_size m input_str split_on output =
     aws_byte_cursor_split_on_char_n char_signed push_back output_item_size m input_str split_on 0 output"

text \<open>An output list that always has room: \<open>push_back\<close> appends and returns success.\<close>

definition push_back_ok :: "aws_byte_cursor list \<Rightarrow> aws_byte_cursor \<Rightarrow> int \<times> aws_byte_cursor list" where
  "push_back_ok output c = (AWS_OP_SUCCESS, output @ [c])"

text \<open>Calling \<open>aws_byte_cursor_next_split\<close> \<open>k\<close> times from a given state: the flags and
  the cursors the calls returned, in order.\<close>

fun next_split_calls ::
  "bool \<Rightarrow> memory \<Rightarrow> aws_byte_cursor \<Rightarrow> u8 \<Rightarrow> aws_byte_cursor \<Rightarrow> nat \<Rightarrow> (bool \<times> aws_byte_cursor) list" where
  "next_split_calls char_signed m input_str split_on substr 0 = []"
| "next_split_calls char_signed m input_str split_on substr (Suc k) =
     (let r = aws_byte_cursor_next_split char_signed m input_str split_on substr
      in r # next_split_calls char_signed m input_str split_on (snd r) k)"

section \<open>The dynamic array and its proof harnesses\<close>

text \<open>
  \<open>struct aws_array_list { struct aws_allocator *alloc; size_t current_size;
  size_t length; size_t item_size; void *data; }\<close>, with the field \<open>length\<close> written
  \<open>length_al\<close>.
\<close>

record aws_array_list =
  alloc :: addr
  current_size :: size_t
  length_al :: size_t
  item_size :: size_t
  data :: addr

text \<open>The bounds of the two harnesses.\<close>

definition MAX_ITEM_SIZE :: size_t where
  "MAX_ITEM_SIZE = 2"

definition MAX_INITIAL_ITEM_ALLOCATION :: size_t where
  "MAX_INITIAL_ITEM_ALLOCATION = (- 1) div MAX_ITEM_SIZE + 1"

text \<open>
  Modelled from the spec: \<open>ASSUME_BOUNDED_ARRAY_LIST\<close> is a macro of the proof helpers,
  which are not among the sources. A well-formed array keeps the invariant of the data
  model (\<open>length * item_size <= current_size\<close>, and the pointer is null exactly when
  \<open>current_size\<close> is 0) and the bounds the harnesses list: the initial allocation is
  at most \<open>MAX_INITIAL_ITEM_ALLOCATION\<close>, the item size at most \<open>MAX_ITEM_SIZE\<close>, the
  length at most the initial allocation.
\<close>

definition bounded_array_list :: "aws_array_list \<Rightarrow> size_t \<Rightarrow> bool" where
  "bounded_array_list list initial_item_allocation \<longleftrightarrow>
     initial_item_allocation \<le> MAX_INITIAL_ITEM_ALLOCATION
     \<and> item_size list \<le> MAX_ITEM_SIZE
     \<and> length_al list \<le> initial_item_allocation
     \<and> unat (length_al list) * unat (item_size list) \<le> unat (current_size list)
     \<and> (data list = 0) = (current_size list = 0)"

text \<open>
  Modelled from the spec: the overflow-checked multiplication
  \<open>checked_mul(a, b) -> size|overflow\<close> is not among the sources.
\<close>

definition aws_mul_size_checked :: "size_t \<Rightarrow> size_t \<Rightarrow> size_t option" where
  "aws_mul_size_checked a b = (if unat a * unat b < 2 ^ 64 then Some (a * b) else None)"

text \<open>\<open>memmove(dst, src, n)\<close>: as \<open>memcpy\<close>, and defined for ranges that overlap.\<close>

definition memmove :: "memory \<Rightarrow> addr \<Rightarrow> addr \<Rightarrow> size_t \<Rightarrow> memory" where
  "memmove m dst src n = (\<lambda>a. if a - dst < n then m (src + (a - dst)) else m a)"

text \<open>
  Modelled from the spec: \<open>aws_array_list_clean_up\<close> is defined in array\_list.c, which
  is not among the sources. It releases the storage if allocated, then zeroes
  \<open>allocator\<close>, \<open>current_size\<close>, \<open>length\<close>, \<open>item_size\<close> and \<open>pointer\<close>.
\<close>

definition aws_array_list_clean_up :: "heap \<Rightarrow> aws_array_list \<Rightarrow> aws_array_list \<times> heap" where
  "aws_array_list_clean_up h list =
     (let h' = (if alloc list \<noteq> 0 \<and> data list \<noteq> 0
                then aws_mem_release h (alloc list) (data list) else h)
      in (list\<lparr>alloc := 0, current_size := 0, length_al := 0, item_size := 0, data := 0\<rparr>,
          h'))"

text \<open>
  Modelled from the spec: \<open>aws_array_list_pop_front_n\<close> is not among the sources. It
  removes up to \<open>n\<close> elements from the front, shifting the remaining elements down and
  decrementing the length; removing at least as many elements as the list has empties the
  list without error.
\<close>

definition aws_array_list_pop_front_n ::
  "heap \<Rightarrow> aws_array_list \<Rightarrow> size_t \<Rightarrow> aws_array_list \<times> heap" where
  "aws_array_list_pop_front_n h list n =
     (if length_al list \<le> n then (list\<lparr>length_al := 0\<rparr>, h)
      else
        (list\<lparr>length_al := length_al list - n\<rparr>,
         h\<lparr>mem := memmove (mem h) (data list) (data list + item_size list * n)
                     ((length_al list - n) * item_size list)\<rparr>))"

text \<open>
  Modelled from the spec: \<open>aws_array_list_shrink_to_fit\<close> is not among the sources. If
  the length is 0 it releases the storage and leaves the pointer null and
  \<open>current_size\<close> 0. Otherwise it allocates exactly \<open>length * item_size\<close> bytes (the
  product overflow-checked, as every size computation is), copies the live elements,
  releases the old storage and sets \<open>current_size\<close> to that size. When the allocation
  fails the list is unchanged and the call reports allocation failure; an overflow is
  reported as an invalid argument.
\<close>

definition aws_array_list_shrink_to_fit ::
  "acquire_fn \<Rightarrow> heap \<Rightarrow> aws_array_list \<Rightarrow> int \<times> aws_array_list \<times> heap" where
  "aws_array_list_shrink_to_fit acquire h list =
     (if length_al list = 0 then
        (AWS_OP_SUCCESS, list\<lparr>data := 0, current_size := 0\<rparr>,
         aws_mem_release h (alloc list) (data list))
      else
        (case aws_mul_size_checked (length_al list) (item_size list) of
           None \<Rightarrow>
             (case aws_raise_error h AWS_ERROR_INVALID_ARGUMENT of (rc, h') \<Rightarrow> (rc, list, h'))
         | Some ideal_size \<Rightarrow>
             (case aws_mem_acquire acquire h (alloc list) ideal_size of
                (raw_data, h1) \<Rightarrow>
                  if raw_data = 0 then
                    (case aws_raise_error h1 AWS_ERROR_OOM of (rc, h') \<Rightarrow> (rc, list, h'))
                  else
                    (AWS_OP_SUCCESS, list\<lparr>data := raw_data, current_size := ideal_size\<rparr>,
                     aws_mem_release
                       (h1\<lparr>mem := memcpy (mem h1) raw_data (data list) ideal_size\<rparr>)
                       (alloc list) (data list)))))"

section \<open>Notions the properties are stated with\<close>

text \<open>
  Two ranges of memory, \<open>n\<close> bytes from \<open>p\<close> and \<open>k\<close> bytes from \<open>q\<close>, that lie
  apart: neither wraps around the address space, and one ends before the other starts.
\<close>

definition ranges_disjoint :: "addr \<Rightarrow> size_t \<Rightarrow> addr \<Rightarrow> size_t \<Rightarrow> bool" where
  "ranges_disjoint p n q k \<longleftrightarrow>
     (unat p + unat n \<le> unat q \<and> unat q + unat k \<le> 2 ^ 64)
     \<or> (unat q + unat k \<le> unat p \<and> unat p + unat n \<le> 2 ^ 64)"

text \<open>
  The ASCII upper-case letters \<open>'A'\<close> to \<open>'Z'\<close>, the lower-casing that maps exactly
  these to \<open>'a'\<close> to \<open>'z'\<close> and every other byte to itself, and two bytes that are
  equal or are the two cases of one ASCII letter.
\<close>

definition is_ascii_upper :: "u8 \<Rightarrow> bool" where
  "is_ascii_upper b \<longleftrightarrow> 0x41 \<le> b \<and> b \<le> 0x5A"

definition ascii_tolower :: "u8 \<Rightarrow> u8" where
  "ascii_tolower b = (if is_ascii_upper b then b + 0x20 else b)"

definition equal_ignoring_ascii_case :: "u8 \<Rightarrow> u8 \<Rightarrow> bool" where
  "equal_ignoring_ascii_case x y \<longleftrightarrow>
     x = y \<or> (is_ascii_upper x \<and> y = x + 0x20) \<or> (is_ascii_upper y \<and> x = y + 0x20)"

section \<open>Properties\<close>

subsection \<open>Splitting "a,b,,c," on the comma\<close>

lemma memchr_numeral:
  "memchr m s c (numeral k) = (if m s = c then s else memchr m (s + 1) c (pred_numeral k))"
  by (simp add: numeral_eq_Suc)

lemma memchr_one: "memchr m s c 1 = (if m s = c then s else 0)"
  by (simp add: numeral_eq_Suc)

text \<open>The bytes of the input, wherever it lies; each address in both orders of the sum.\<close>

lemma input_bytes:
  assumes "read_bytes m p 7 = bytes_of ''a,b,,c,''"
  shows "m p = 97" "m (1 + p) = 44" "m (2 + p) = 98" "m (3 + p) = 44" "m (4 + p) = 44"
    "m (5 + p) = 99" "m (6 + p) = 44"
    "m (p + 1) = 44" "m (p + 2) = 98" "m (p + 3) = 44" "m (p + 4) = 44" "m (p + 5) = 99"
    "m (p + 6) = 44"
  using assms by (simp_all add: read_bytes_def bytes_of_def upt_rec add.commute)

lemma no_wrap_not_less:
  fixes p :: addr
  assumes "unat p + 7 < 2 ^ 64" "k \<le> 7"
  shows "\<not> p + 7 < p + of_nat k"
  using assms by (simp add: word_less_nat_alt unat_word_ariths unat_of_nat)

lemma no_wrap_not_null:
  fixes p :: addr
  assumes "unat p + 7 < 2 ^ 64" "p \<noteq> 0" "k \<le> 7"
  shows "p + of_nat k \<noteq> 0"
proof
  assume "p + of_nat k = 0"
  then have "unat (p + of_nat k) = 0"
    by simp
  with assms show False
    by (simp add: unat_word_ariths unat_of_nat unat_eq_zero)
qed

lemma input_addresses:
  fixes p :: addr
  assumes "unat p + 7 < 2 ^ 64" "p \<noteq> 0"
  shows "\<not> p + 7 < p" "\<not> p + 7 < 1 + p" "\<not> p + 7 < 2 + p" "\<not> p + 7 < 3 + p"
    "\<not> p + 7 < 4 + p" "\<not> p + 7 < 5 + p" "\<not> p + 7 < 6 + p" "\<not> p + 7 < 7 + p"
    "1 + p \<noteq> 0" "2 + p \<noteq> 0" "3 + p \<noteq> 0" "4 + p \<noteq> 0" "5 + p \<noteq> 0" "6 + p \<noteq> 0"
    "7 + p \<noteq> 0"
    "\<not> p + 7 < p + 1" "\<not> p + 7 < p + 2" "\<not> p + 7 < p + 3"
    "\<not> p + 7 < p + 4" "\<not> p + 7 < p + 5" "\<not> p + 7 < p + 6"
    "p + 1 \<noteq> 0" "p + 2 \<noteq> 0" "p + 3 \<noteq> 0" "p + 4 \<noteq> 0" "p + 5 \<noteq> 0" "p + 6 \<noteq> 0"
    "p + 7 \<noteq> 0"
  using no_wrap_not_less [OF assms(1), of 0] no_wrap_not_less [OF assms(1), of 1]
    no_wrap_not_less [OF assms(1), of 2] no_wrap_not_less [OF assms(1), of 3]
    no_wrap_not_less [OF assms(1), of 4] no_wrap_not_less [OF assms(1), of 5]
    no_wrap_not_less [OF assms(1), of 6] no_wrap_not_less [OF assms(1), of 7]
    no_wrap_not_null [OF assms, of 1] no_wrap_not_null [OF assms, of 2]
    no_wrap_not_null [OF assms, of 3] no_wrap_not_null [OF assms, of 4]
    no_wrap_not_null [OF assms, of 5] no_wrap_not_null [OF assms, of 6]
    no_wrap_not_null [OF assms, of 7]
  by (simp_all add: add.commute)

lemmas next_split_unfold =
  aws_byte_cursor_next_split_def zero_cursor_def find_delimiter_def Let_def
  memchr_numeral memchr_one char_to_int_def

text \<open>The six calls, one by one: each starts from the cursor the call before left.\<close>

lemma next_split_call_1:
  assumes "p \<noteq> 0" "unat p + 7 < 2 ^ 64" "read_bytes m p 7 = bytes_of ''a,b,,c,''"
  shows "aws_byte_cursor_next_split cs m \<lparr>len = 7, ptr = p\<rparr> 44 zero_cursor
    = (True, \<lparr>len = 1, ptr = p\<rparr>)"
  using assms(1) input_addresses [OF assms(2,1)] input_bytes [OF assms(3)]
  by (simp add: next_split_unfold)

lemma next_split_call_2:
  assumes "p \<noteq> 0" "unat p + 7 < 2 ^ 64" "read_bytes m p 7 = bytes_of ''a,b,,c,''"
  shows "aws_byte_cursor_next_split cs m \<lparr>len = 7, ptr = p\<rparr> 44 \<lparr>len = 1, ptr = p\<rparr>
    = (True, \<lparr>len = 1, ptr = p + 2\<rparr>)"
  using assms(1) input_addresses [OF assms(2,1)] input_bytes [OF assms(3)]
  by (simp add: next_split_unfold)

lemma next_split_call_3:
  assumes "p \<noteq> 0" "unat p + 7 < 2 ^ 64" "read_bytes m p 7 = bytes_of ''a,b,,c,''"
  shows "aws_byte_cursor_next_split cs m \<lparr>len = 7, ptr = p\<rparr> 44 \<lparr>len = 1, ptr = p + 2\<rparr>
    = (True, \<lparr>len = 0, ptr = p + 4\<rparr>)"
  using assms(1) input_addresses [OF assms(2,1)] input_bytes [OF assms(3)]
  by (simp add: next_split_unfold)

lemma next_split_call_4:
  assumes "p \<noteq> 0" "unat p + 7 < 2 ^ 64" "read_bytes m p 7 = bytes_of ''a,b,,c,''"
  shows "aws_byte_cursor_next_split cs m \<lparr>len = 7, ptr = p\<rparr> 44 \<lparr>len = 0, ptr = p + 4\<rparr>
    = (True, \<lparr>len = 1, ptr = p + 5\<rparr>)"
  using assms(1) input_addresses [OF assms(2,1)] input_bytes [OF assms(3)]
  by (simp add: next_split_unfold)

lemma next_split_call_5:
  assumes "p \<noteq> 0" "unat p + 7 < 2 ^ 64" "read_bytes m p 7 = bytes_of ''a,b,,c,''"
  shows "aws_byte_cursor_next_split cs m \<lparr>len = 7, ptr = p\<rparr> 44 \<lparr>len = 1, ptr = p + 5\<rparr>
    = (True, \<lparr>len = 0, ptr = p + 7\<rparr>)"
  using assms(1) input_addresses [OF assms(2,1)] input_bytes [OF assms(3)]
  by (simp add: next_split_unfold)

lemma next_split_call_6:
  assumes "p \<noteq> 0" "unat p + 7 < 2 ^ 64" "read_bytes m p 7 = bytes_of ''a,b,,c,''"
  shows "aws_byte_cursor_next_split cs m \<lparr>len = 7, ptr = p\<rparr> 44 \<lparr>len = 0, ptr = p + 7\<rparr>
    = (False, zero_cursor)"
  using assms(1) input_addresses [OF assms(2,1)] input_bytes [OF assms(3)]
  by (simp add: next_split_unfold)

lemma next_split_calls_numeral:
  "next_split_calls cs m input_str split_on substr (numeral k) =
     (let r = aws_byte_cursor_next_split cs m input_str split_on substr
      in r # next_split_calls cs m input_str split_on (snd r) (pred_numeral k))"
  by (simp add: numeral_eq_Suc)

lemma next_split_six_calls:
  assumes "p \<noteq> 0" "unat p + 7 < 2 ^ 64" "read_bytes m p 7 = bytes_of ''a,b,,c,''"
  shows "next_split_calls cs m \<lparr>len = 7, ptr = p\<rparr> 44 zero_cursor 6 =
      [(True, \<lparr>len = 1, ptr = p\<rparr>), (True, \<lparr>len = 1, ptr = p + 2\<rparr>),
       (True, \<lparr>len = 0, ptr = p + 4\<rparr>), (True, \<lparr>len = 1, ptr = p + 5\<rparr>),
       (True, \<lparr>len = 0, ptr = p + 7\<rparr>), (False, zero_cursor)]"
  by (simp add: next_split_calls_numeral Let_def
      next_split_call_1 [OF assms] next_split_call_2 [OF assms] next_split_call_3 [OF assms]
      next_split_call_4 [OF assms] next_split_call_5 [OF assms] next_split_call_6 [OF assms])

lemma split_unlimited:
  assumes "p \<noteq> 0" "unat p + 7 < 2 ^ 64" "read_bytes m p 7 = bytes_of ''a,b,,c,''"
  shows "aws_byte_cursor_split_on_char_n cs push_back_ok 16 m \<lparr>len = 7, ptr = p\<rparr> 44 0 [] =
     Some (Inr (AWS_OP_SUCCESS,
       [\<lparr>len = 1, ptr = p\<rparr>, \<lparr>len = 1, ptr = p + 2\<rparr>, \<lparr>len = 0, ptr = p + 4\<rparr>,
        \<lparr>len = 1, ptr = p + 5\<rparr>, \<lparr>len = 0, ptr = p + 7\<rparr>]))"
  using assms(1)
  by (simp add: aws_byte_cursor_split_on_char_n_def split_loop.simps Let_def
      next_split_call_1 [OF assms] next_split_call_2 [OF assms] next_split_call_3 [OF assms]
      next_split_call_4 [OF assms] next_split_call_5 [OF assms] next_split_call_6 [OF assms]
      push_back_ok_def AWS_OP_SUCCESS_def)

lemma split_two:
  assumes "p \<noteq> 0" "unat p + 7 < 2 ^ 64" "read_bytes m p 7 = bytes_of ''a,b,,c,''"
  shows "aws_byte_cursor_split_on_char_n cs push_back_ok 16 m \<lparr>len = 7, ptr = p\<rparr> 44 2 [] =
     Some (Inr (AWS_OP_SUCCESS,
       [\<lparr>len = 1, ptr = p\<rparr>, \<lparr>len = 1, ptr = p + 2\<rparr>, \<lparr>len = 3, ptr = p + 4\<rparr>]))"
  using assms(1)
  by (simp add: aws_byte_cursor_split_on_char_n_def split_loop.simps Let_def
      next_split_call_1 [OF assms] next_split_call_2 [OF assms] next_split_call_3 [OF assms]
      push_back_ok_def AWS_OP_SUCCESS_def)

lemma segment_bytes:
  assumes "read_bytes m p 7 = bytes_of ''a,b,,c,''"
  shows "map (cursor_bytes m)
       [\<lparr>len = 1, ptr = p\<rparr>, \<lparr>len = 1, ptr = p + 2\<rparr>, \<lparr>len = 0, ptr = p + 4\<rparr>,
        \<lparr>len = 1, ptr = p + 5\<rparr>, \<lparr>len = 0, ptr = p + 7\<rparr>]
     = map bytes_of [''a'', ''b'', [], ''c'', []]"
   and "map (cursor_bytes m)
       [\<lparr>len = 1, ptr = p\<rparr>, \<lparr>len = 1, ptr = p + 2\<rparr>, \<lparr>len = 3, ptr = p + 4\<rparr>]
     = map bytes_of [''a'', ''b'', '',c,'']"
  using input_bytes [OF assms]
  by (simp_all add: cursor_bytes_def read_bytes_def bytes_of_def upt_rec)

text \<open>
  C1. Let the seven bytes "a,b,,c," lie in memory at any non-null address \<open>p\<close> (the
  range not wrapping around the address space), and let the input cursor view them.
  Six calls of \<open>aws_byte_cursor_next_split\<close> with the delimiter \<open>','\<close>, from a zeroed
  state cursor, return true five times, leaving the state on the segments "a", "b", "",
  "c", "" in that order, and then return false with the state zeroed.
  \<open>aws_byte_cursor_split_on_char_n\<close> with \<open>n = 0\<close> returns success and has pushed
  exactly these five cursors; with \<open>n = 2\<close> it returns success and has pushed exactly
  three cursors, on "a", "b" and ",c,".
\<close>

theorem split_on_comma_example:
  assumes "p \<noteq> 0" and "unat p + 7 < 2 ^ 64"
    and "read_bytes m p 7 = bytes_of ''a,b,,c,''"
  shows "next_split_calls char_signed m \<lparr>len = 7, ptr = p\<rparr> (of_char CHR '','') zero_cursor 6
        = [(True, \<lparr>len = 1, ptr = p\<rparr>), (True, \<lparr>len = 1, ptr = p + 2\<rparr>),
           (True, \<lparr>len = 0, ptr = p + 4\<rparr>), (True, \<lparr>len = 1, ptr = p + 5\<rparr>),
           (True, \<lparr>len = 0, ptr = p + 7\<rparr>), (False, zero_cursor)]
     \<and> aws_byte_cursor_split_on_char_n char_signed push_back_ok 16 m \<lparr>len = 7, ptr = p\<rparr>
          (of_char CHR '','') 0 []
        = Some (Inr (AWS_OP_SUCCESS,
            [\<lparr>len = 1, ptr = p\<rparr>, \<lparr>len = 1, ptr = p + 2\<rparr>, \<lparr>len = 0, ptr = p + 4\<rparr>,
             \<lparr>len = 1, ptr = p + 5\<rparr>, \<lparr>len = 0, ptr = p + 7\<rparr>]))
     \<and> map (cursor_bytes m)
          [\<lparr>len = 1, ptr = p\<rparr>, \<lparr>len = 1, ptr = p + 2\<rparr>, \<lparr>len = 0, ptr = p + 4\<rparr>,
           \<lparr>len = 1, ptr = p + 5\<rparr>, \<lparr>len = 0, ptr = p + 7\<rparr>]
        = map bytes_of [''a'', ''b'', [], ''c'', []]
     \<and> aws_byte_cursor_split_on_char_n char_signed push_back_ok 16 m \<lparr>len = 7, ptr = p\<rparr>
          (of_char CHR '','') 2 []
        = Some (Inr (AWS_OP_SUCCESS,
            [\<lparr>len = 1, ptr = p\<rparr>, \<lparr>len = 1, ptr = p + 2\<rparr>, \<lparr>len = 3, ptr = p + 4\<rparr>]))
     \<and> map (cursor_bytes m)
          [\<lparr>len = 1, ptr = p\<rparr>, \<lparr>len = 1, ptr = p + 2\<rparr>, \<lparr>len = 3, ptr = p + 4\<rparr>]
        = map bytes_of [''a'', ''b'', '',c,'']"
proof -
  have comma: "(of_char CHR '','' :: u8) = 44"
    by simp
  show ?thesis
    unfolding comma
    using next_split_six_calls [OF assms] split_unlimited [OF assms] split_two [OF assms]
      segment_bytes [OF assms(3)]
    by (simp only: simp_thms)
qed

theorem split_on_comma_example_witness:
  "(4096 :: addr) \<noteq> 0 \<and> unat (4096 :: addr) + 7 < 2 ^ 64
   \<and> read_bytes (store_bytes zero_memory 4096 (bytes_of ''a,b,,c,'')) 4096 7 = bytes_of ''a,b,,c,''
   \<and> aws_byte_cursor_split_on_char_n True push_back_ok 16
        (store_bytes zero_memory 4096 (bytes_of ''a,b,,c,'')) \<lparr>len = 7, ptr = 4096\<rparr>
        (of_char CHR '','') 0 []
      = Some (Inr (AWS_OP_SUCCESS,
          [\<lparr>len = 1, ptr = 4096\<rparr>, \<lparr>len = 1, ptr = 4098\<rparr>, \<lparr>len = 0, ptr = 4100\<rparr>,
           \<lparr>len = 1, ptr = 4101\<rparr>, \<lparr>len = 0, ptr = 4103\<rparr>]))
   \<and> aws_byte_cursor_split_on_char_n True push_back_ok 16
        (store_bytes zero_memory 4096 (bytes_of ''a,b,,c,'')) \<lparr>len = 7, ptr = 4096\<rparr>
        (of_char CHR '','') 2 []
      = Some (Inr (AWS_OP_SUCCESS,
          [\<lparr>len = 1, ptr = 4096\<rparr>, \<lparr>len = 1, ptr = 4098\<rparr>, \<lparr>len = 3, ptr = 4100\<rparr>]))"
proof -
  let ?m = "store_bytes zero_memory 4096 (bytes_of ''a,b,,c,'')"
  have h1: "(4096 :: addr) \<noteq> 0"
    by simp
  have h2: "unat (4096 :: addr) + 7 < 2 ^ 64"
    by simp
  have h3: "read_bytes ?m 4096 7 = bytes_of ''a,b,,c,''"
    by (simp add: read_bytes_def bytes_of_def zero_memory_def upt_rec)
  have sums: "(4096 :: addr) + 2 = 4098" "(4096 :: addr) + 4 = 4100"
    "(4096 :: addr) + 5 = 4101" "(4096 :: addr) + 7 = 4103"
    by simp_all
  show ?thesis
    using split_on_comma_example [OF h1 h2 h3, of True] h1 h2 h3
    by (simp only: sums simp_thms)
qed

subsection \<open>Byte buffers: initialisation, append, secure zero\<close>

lemma of_nat_less_word:
  fixes n :: size_t
  assumes "i < unat n"
  shows "(of_nat i :: size_t) < n"
proof -
  have "unat n < 2 ^ 64"
    using unsigned_less [of n] by simp
  with assms have "unat (of_nat i :: size_t) = i"
    by (simp add: unat_of_nat)
  with assms show ?thesis
    by (simp add: word_less_nat_alt)
qed

lemma read_bytes_secure_zero:
  "read_bytes (aws_secure_zero m p n) p (unat n) = replicate (unat n) 0"
proof -
  have "map (\<lambda>i. aws_secure_zero m p n (p + of_nat i)) [0..<unat n]
      = map (\<lambda>i. 0) [0..<unat n]"
    by (rule map_cong) (simp_all add: aws_secure_zero_def of_nat_less_word)
  then show ?thesis
    by (simp add: read_bytes_def map_replicate_const)
qed

lemma read_bytes_memcpy:
  "read_bytes (memcpy m dst src n) dst (unat n) = read_bytes m src (unat n)"
  unfolding read_bytes_def
  by (rule map_cong) (simp_all add: memcpy_def of_nat_less_word)

text \<open>
  C5, as the code has it. When the allocator gives no memory, \<open>aws_byte_buf_init\<close>
  returns \<open>AWS_OP_ERR\<close>; it has stored the null pointer it got in \<open>buf->buffer\<close>, and
  it leaves \<open>len\<close>, \<open>capacity\<close> and \<open>allocator\<close> of the structure, and the heap,
  as they were.
\<close>

theorem init_allocation_failure:
  assumes "acquire allocator' h capacity' = 0"
  shows "aws_byte_buf_init acquire h buf allocator' capacity'
    = (AWS_OP_ERR, buf\<lparr>buffer := 0\<rparr>, h)"
  using assms by (simp add: aws_byte_buf_init_def aws_mem_acquire_def)

theorem init_allocation_failure_witness:
  "failing_allocator 1 empty_heap 16 = 0
   \<and> aws_byte_buf_init failing_allocator empty_heap
        \<lparr>len_buf = 5, buffer = 8192, capacity = 9, allocator = 2\<rparr> 1 16
      = (AWS_OP_ERR, \<lparr>len_buf = 5, buffer = 0, capacity = 9, allocator = 2\<rparr>, empty_heap)"
  using init_allocation_failure [of failing_allocator 1 empty_heap 16
      "\<lparr>len_buf = 5, buffer = 8192, capacity = 9, allocator = 2\<rparr>"]
  by (simp add: failing_allocator_def)

text \<open>
  The claim C5 as it is written fails: the structure is written on the failure path.
  A buffer whose pointer field holds 4096 before the call holds the null pointer after.
\<close>

theorem init_failure_writes_buffer_field:
  "aws_byte_buf_init failing_allocator empty_heap
      \<lparr>len_buf = 3, buffer = 4096, capacity = 8, allocator = 1\<rparr> 1 16
    = (AWS_OP_ERR, \<lparr>len_buf = 3, buffer = 0, capacity = 8, allocator = 1\<rparr>, empty_heap)
   \<and> \<lparr>len_buf = 3, buffer = 0, capacity = 8, allocator = 1\<rparr>
      \<noteq> \<lparr>len_buf = 3, buffer = 4096, capacity = 8, allocator = (1 :: addr)\<rparr>"
  by (simp add: aws_byte_buf_init_def aws_mem_acquire_def failing_allocator_def)

text \<open>
  C4, as the code has it. Let the destination have a non-null buffer pointer and
  \<open>len <= capacity\<close>, and let the source have a non-null pointer (the function asserts
  both pointers). If the source is longer than \<open>capacity - len\<close>, the call returns
  \<open>AWS_OP_ERR\<close> with the last error set to destination-too-small, and every field of
  the destination and every byte of memory is unchanged. Otherwise it returns success,
  the bytes from \<open>buffer + len\<close> on are the source's bytes, the bytes outside that range
  are unchanged, \<open>len\<close> has grown by the source's length, and \<open>buffer\<close>, \<open>capacity\<close>
  and \<open>allocator\<close> are unchanged.
\<close>

theorem append_checks_capacity:
  assumes "buffer to \<noteq> 0" and "ptr from \<noteq> 0" and "len_buf to \<le> capacity to"
  shows "(unat (capacity to) - unat (len_buf to) < unat (len from) \<longrightarrow>
        aws_byte_buf_append h to from
          = Inr (AWS_OP_ERR, to, h\<lparr>last_error := Some AWS_ERROR_DEST_COPY_TOO_SMALL\<rparr>))
     \<and> (unat (len from) \<le> unat (capacity to) - unat (len_buf to) \<longrightarrow>
        (\<exists>h'. aws_byte_buf_append h to from
            = Inr (AWS_OP_SUCCESS, to\<lparr>len_buf := len_buf to + len from\<rparr>, h')
          \<and> read_bytes (mem h') (buffer to + len_buf to) (unat (len from))
            = read_bytes (mem h) (ptr from) (unat (len from))
          \<and> (\<forall>a. \<not> a - (buffer to + len_buf to) < len from \<longrightarrow> mem h' a = mem h a)
          \<and> blocks h' = blocks h \<and> last_error h' = last_error h))"
proof -
  from assms(3) have "unat (capacity to - len_buf to) = unat (capacity to) - unat (len_buf to)"
    by (simp add: unat_sub)
  then have cond: "(capacity to - len_buf to < len from)
      = (unat (capacity to) - unat (len_buf to) < unat (len from))"
    by (simp add: word_less_nat_alt)
  have frame: "\<forall>a. \<not> a - (buffer to + len_buf to) < len from \<longrightarrow>
      memcpy (mem h) (buffer to + len_buf to) (ptr from) (len from) a = mem h a"
    by (simp add: memcpy_def)
  show ?thesis
    using assms(1,2) frame
    by (auto simp add: aws_byte_buf_append_def aws_raise_error_def cond read_bytes_memcpy)
qed

theorem append_checks_capacity_witness:
  "buffer \<lparr>len_buf = 1, buffer = 4096, capacity = 4, allocator = 1\<rparr> \<noteq> 0
   \<and> ptr \<lparr>len = 2, ptr = 8192\<rparr> \<noteq> 0
   \<and> len_buf \<lparr>len_buf = 1, buffer = 4096, capacity = 4, allocator = 1\<rparr>
      \<le> capacity \<lparr>len_buf = 1, buffer = 4096, capacity = 4, allocator = 1\<rparr>
   \<and> aws_byte_buf_append empty_heap \<lparr>len_buf = 1, buffer = 4096, capacity = 4, allocator = 1\<rparr>
        \<lparr>len = 5, ptr = 8192\<rparr>
      = Inr (AWS_OP_ERR, \<lparr>len_buf = 1, buffer = 4096, capacity = 4, allocator = 1\<rparr>,
          empty_heap\<lparr>last_error := Some AWS_ERROR_DEST_COPY_TOO_SMALL\<rparr>)
   \<and> (case aws_byte_buf_append
             (empty_heap\<lparr>mem := store_bytes zero_memory 8192 (bytes_of ''hi'')\<rparr>)
             \<lparr>len_buf = 1, buffer = 4096, capacity = 4, allocator = 1\<rparr> \<lparr>len = 2, ptr = 8192\<rparr> of
         Inl e \<Rightarrow> False
       | Inr (rc, dest, h') \<Rightarrow>
           rc = AWS_OP_SUCCESS
           \<and> dest = \<lparr>len_buf = 3, buffer = 4096, capacity = 4, allocator = 1\<rparr>
           \<and> read_bytes (mem h') 4097 2 = bytes_of ''hi'')"
proof -
  let ?to = "\<lparr>len_buf = 1, buffer = 4096, capacity = 4, allocator = 1\<rparr> :: aws_byte_buf"
  let ?h = "empty_heap\<lparr>mem := store_bytes zero_memory 8192 (bytes_of ''hi'')\<rparr>"
  have h1: "buffer ?to \<noteq> 0"
    by simp
  have h2: "ptr \<lparr>len = 2, ptr = 8192\<rparr> \<noteq> 0" "ptr \<lparr>len = 5, ptr = 8192\<rparr> \<noteq> 0"
    by simp_all
  have h3: "len_buf ?to \<le> capacity ?to"
    by simp
  have src: "read_bytes (mem ?h) 8192 2 = bytes_of ''hi''"
    by (simp add: read_bytes_def bytes_of_def zero_memory_def upt_rec)
  have too_small: "aws_byte_buf_append empty_heap ?to \<lparr>len = 5, ptr = 8192\<rparr>
      = Inr (AWS_OP_ERR, ?to, empty_heap\<lparr>last_error := Some AWS_ERROR_DEST_COPY_TOO_SMALL\<rparr>)"
    using append_checks_capacity [OF h1 h2(2) h3, of empty_heap] by simp
  obtain h' where
    run: "aws_byte_buf_append ?h ?to \<lparr>len = 2, ptr = 8192\<rparr>
        = Inr (AWS_OP_SUCCESS, ?to\<lparr>len_buf := len_buf ?to + len \<lparr>len = 2, ptr = 8192\<rparr>\<rparr>, h')"
    and copied: "read_bytes (mem h') (buffer ?to + len_buf ?to) (unat (len \<lparr>len = 2, ptr = 8192\<rparr>))
        = read_bytes (mem ?h) (ptr \<lparr>len = 2, ptr = 8192\<rparr>) (unat (len \<lparr>len = 2, ptr = 8192\<rparr>))"
    using append_checks_capacity [OF h1 h2(1) h3, of ?h] by auto
  from copied src have "read_bytes (mem h') 4097 2 = bytes_of ''hi''"
    by simp
  with run too_small h1 h2 h3 show ?thesis
    by simp
qed

text \<open>
  The claim C4 as it is written fails for a source cursor with a null pointer: the
  assertion \<open>assert(from->ptr)\<close> aborts the call, which neither returns the error nor
  copies.
\<close>

theorem append_null_source_aborts:
  "aws_byte_buf_append empty_heap \<lparr>len_buf = 0, buffer = 4096, capacity = 4, allocator = 1\<rparr>
      \<lparr>len = 0, ptr = 0\<rparr>
    = Inl Assertion_failed"
  by (simp add: aws_byte_buf_append_def)

text \<open>
  C9. For a buffer with a non-null pointer, after \<open>aws_byte_buf_secure_zero\<close> all
  \<open>capacity\<close> bytes from the buffer pointer on are zero, \<open>len\<close> is 0, the buffer
  pointer, the capacity and the allocator are unchanged, and so are the allocated blocks.
\<close>

theorem secure_zero_clears_capacity:
  assumes "buffer buf \<noteq> 0"
    and "aws_byte_buf_secure_zero h buf = (buf', h')"
  shows "read_bytes (mem h') (buffer buf) (unat (capacity buf)) = replicate (unat (capacity buf)) 0
     \<and> len_buf buf' = 0 \<and> buffer buf' = buffer buf \<and> capacity buf' = capacity buf
     \<and> allocator buf' = allocator buf \<and> blocks h' = blocks h"
  using assms by (auto simp add: aws_byte_buf_secure_zero_def read_bytes_secure_zero)

theorem secure_zero_clears_capacity_witness:
  "buffer \<lparr>len_buf = 2, buffer = 4096, capacity = 4, allocator = 1\<rparr> \<noteq> 0
   \<and> read_bytes (store_bytes zero_memory 4096 (bytes_of ''abcd'')) 4096 4 = bytes_of ''abcd''
   \<and> read_bytes
        (mem (snd (aws_byte_buf_secure_zero
           (empty_heap\<lparr>mem := store_bytes zero_memory 4096 (bytes_of ''abcd'')\<rparr>)
           \<lparr>len_buf = 2, buffer = 4096, capacity = 4, allocator = 1\<rparr>))) 4096 4
      = [0, 0, 0, 0]
   \<and> fst (aws_byte_buf_secure_zero
           (empty_heap\<lparr>mem := store_bytes zero_memory 4096 (bytes_of ''abcd'')\<rparr>)
           \<lparr>len_buf = 2, buffer = 4096, capacity = 4, allocator = 1\<rparr>)
      = \<lparr>len_buf = 0, buffer = 4096, capacity = 4, allocator = 1\<rparr>"
proof -
  let ?h = "empty_heap\<lparr>mem := store_bytes zero_memory 4096 (bytes_of ''abcd'')\<rparr>"
  let ?buf = "\<lparr>len_buf = 2, buffer = 4096, capacity = 4, allocator = 1\<rparr>"
  have h1: "buffer ?buf \<noteq> 0"
    by simp
  have h2: "aws_byte_buf_secure_zero ?h ?buf
      = (fst (aws_byte_buf_secure_zero ?h ?buf), snd (aws_byte_buf_secure_zero ?h ?buf))"
    by simp
  have before: "read_bytes (store_bytes zero_memory 4096 (bytes_of ''abcd'')) 4096 4
      = bytes_of ''abcd''"
    by (simp add: read_bytes_def bytes_of_def zero_memory_def upt_rec)
  have "replicate 4 (0 :: u8) = [0, 0, 0, 0]"
    by (simp add: numeral_eq_Suc)
  then have four: "replicate (unat (4 :: size_t)) (0 :: u8) = [0, 0, 0, 0]"
    by simp
  have "fst (aws_byte_buf_secure_zero ?h ?buf)
      = \<lparr>len_buf = 0, buffer = 4096, capacity = 4, allocator = 1\<rparr>"
    by (simp add: aws_byte_buf_secure_zero_def)
  with secure_zero_clears_capacity [OF h1 h2] h1 before four show ?thesis
    by simp
qed

subsection \<open>Cursor equality\<close>

text \<open>
  C10. For zero-length cursors \<open>a\<close> and \<open>b\<close>, \<open>aws_byte_cursor_eq\<close> is true exactly
  when the two pointers are both null or both non-null; and so is
  \<open>aws_byte_cursor_eq_byte_buf\<close> for a zero-length cursor and a zero-length buffer.
\<close>

theorem eq_zero_length:
  assumes "len a = 0" and "len b = 0" and "len_buf buf = 0"
  shows "aws_byte_cursor_eq m (Some a) (Some b) = ((ptr a = 0) = (ptr b = 0))
     \<and> aws_byte_cursor_eq_byte_buf m (Some a) (Some buf) = ((ptr a = 0) = (buffer buf = 0))"
  using assms by (auto simp add: aws_byte_cursor_eq_def aws_byte_cursor_eq_byte_buf_def)

theorem eq_zero_length_witness:
  "\<not> aws_byte_cursor_eq zero_memory (Some \<lparr>len = 0, ptr = 0\<rparr>) (Some \<lparr>len = 0, ptr = 4096\<rparr>)
   \<and> \<not> aws_byte_cursor_eq_byte_buf zero_memory (Some \<lparr>len = 0, ptr = 0\<rparr>)
        (Some \<lparr>len_buf = 0, buffer = 4096, capacity = 8, allocator = 1\<rparr>)"
  using eq_zero_length [of "\<lparr>len = 0, ptr = 0\<rparr>" "\<lparr>len = 0, ptr = 4096\<rparr>"
      "\<lparr>len_buf = 0, buffer = 4096, capacity = 8, allocator = 1\<rparr>" zero_memory]
  by simp

subsection \<open>The dynamic array\<close>

text \<open>
  C2. For every well-formed array, after \<open>aws_array_list_clean_up\<close> the allocator, the
  current size, the length, the item size and the data pointer are all zero.
\<close>

theorem clean_up_zeroes_every_field:
  assumes "bounded_array_list list initial_item_allocation"
    and "aws_array_list_clean_up h list = (list', h')"
  shows "alloc list' = 0 \<and> current_size list' = 0 \<and> length_al list' = 0
     \<and> item_size list' = 0 \<and> data list' = 0"
  using assms(2) by (auto simp add: aws_array_list_clean_up_def Let_def)

theorem clean_up_zeroes_every_field_witness:
  "bounded_array_list \<lparr>alloc = 1, current_size = 8, length_al = 4, item_size = 2, data = 4096\<rparr> 4
   \<and> fst (aws_array_list_clean_up empty_heap
        \<lparr>alloc = 1, current_size = 8, length_al = 4, item_size = 2, data = 4096\<rparr>)
      = \<lparr>alloc = 0, current_size = 0, length_al = 0, item_size = 0, data = 0\<rparr>"
proof -
  let ?list = "\<lparr>alloc = 1, current_size = 8, length_al = 4, item_size = 2, data = 4096\<rparr>"
  have h1: "bounded_array_list ?list 4"
    by (simp add: bounded_array_list_def MAX_INITIAL_ITEM_ALLOCATION_def MAX_ITEM_SIZE_def)
  have h2: "aws_array_list_clean_up empty_heap ?list
      = (fst (aws_array_list_clean_up empty_heap ?list),
         snd (aws_array_list_clean_up empty_heap ?list))"
    by simp
  have "fst (aws_array_list_clean_up empty_heap ?list)
      = \<lparr>alloc = alloc (fst (aws_array_list_clean_up empty_heap ?list)),
         current_size = current_size (fst (aws_array_list_clean_up empty_heap ?list)),
         length_al = length_al (fst (aws_array_list_clean_up empty_heap ?list)),
         item_size = item_size (fst (aws_array_list_clean_up empty_heap ?list)),
         data = data (fst (aws_array_list_clean_up empty_heap ?list))\<rparr>"
    by simp
  with clean_up_zeroes_every_field [OF h1 h2] h1 show ?thesis
    by simp
qed

text \<open>
  C3. For every well-formed array and every \<open>n\<close>, after \<open>aws_array_list_pop_front_n\<close>
  and a successful \<open>aws_array_list_shrink_to_fit\<close>, either the length is 0 and the data
  pointer is null, or the data pointer is non-null and \<open>current_size\<close> is exactly
  \<open>length * item_size\<close> (a product that does not wrap around).
\<close>

theorem shrink_to_fit_exact:
  assumes "bounded_array_list list initial_item_allocation"
    and "aws_array_list_pop_front_n h list n = (list1, h1)"
    and "aws_array_list_shrink_to_fit acquire h1 list1 = (AWS_OP_SUCCESS, list2, h2)"
  shows "(length_al list2 = 0 \<and> data list2 = 0)
     \<or> (data list2 \<noteq> 0 \<and> current_size list2 = length_al list2 * item_size list2
         \<and> unat (current_size list2) = unat (length_al list2) * unat (item_size list2))"
  using assms(3)
  by (auto simp add: aws_array_list_shrink_to_fit_def aws_mul_size_checked_def
      aws_mem_acquire_def aws_raise_error_def AWS_OP_SUCCESS_def AWS_OP_ERR_def Let_def
      unat_word_ariths
      split: if_splits option.splits prod.splits)

theorem shrink_to_fit_exact_witness:
  "bounded_array_list \<lparr>alloc = 1, current_size = 8, length_al = 4, item_size = 2, data = 4096\<rparr> 4
   \<and> fst (aws_array_list_pop_front_n empty_heap
        \<lparr>alloc = 1, current_size = 8, length_al = 4, item_size = 2, data = 4096\<rparr> 1)
      = \<lparr>alloc = 1, current_size = 8, length_al = 3, item_size = 2, data = 4096\<rparr>
   \<and> fst (aws_array_list_shrink_to_fit (allocator_at 8192) empty_heap
        \<lparr>alloc = 1, current_size = 8, length_al = 3, item_size = 2, data = 4096\<rparr>)
      = AWS_OP_SUCCESS
   \<and> fst (snd (aws_array_list_shrink_to_fit (allocator_at 8192) empty_heap
        \<lparr>alloc = 1, current_size = 8, length_al = 3, item_size = 2, data = 4096\<rparr>))
      = \<lparr>alloc = 1, current_size = 6, length_al = 3, item_size = 2, data = 8192\<rparr>"
proof -
  let ?list = "\<lparr>alloc = 1, current_size = 8, length_al = 4, item_size = 2, data = 4096\<rparr>"
  let ?list1 = "\<lparr>alloc = 1, current_size = 8, length_al = 3, item_size = 2, data = 4096\<rparr>"
  let ?list2 = "\<lparr>alloc = 1, current_size = 6, length_al = 3, item_size = 2, data = 8192\<rparr>"
  let ?h1 = "snd (aws_array_list_pop_front_n empty_heap ?list 1)"
  let ?h2 = "snd (snd (aws_array_list_shrink_to_fit (allocator_at 8192) ?h1 ?list1))"
  have h1: "bounded_array_list ?list 4"
    by (simp add: bounded_array_list_def MAX_INITIAL_ITEM_ALLOCATION_def MAX_ITEM_SIZE_def)
  have h2: "aws_array_list_pop_front_n empty_heap ?list 1 = (?list1, ?h1)"
    by (simp add: aws_array_list_pop_front_n_def word_le_nat_alt)
  have h3: "aws_array_list_shrink_to_fit (allocator_at 8192) ?h1 ?list1
      = (AWS_OP_SUCCESS, ?list2, ?h2)"
    by (simp add: aws_array_list_shrink_to_fit_def aws_mul_size_checked_def
        aws_mem_acquire_def allocator_at_def)
  have c2: "fst (aws_array_list_pop_front_n empty_heap ?list 1) = ?list1"
    by (simp add: aws_array_list_pop_front_n_def word_le_nat_alt)
  have c3: "fst (aws_array_list_shrink_to_fit (allocator_at 8192) empty_heap ?list1)
      = AWS_OP_SUCCESS"
    by (simp add: aws_array_list_shrink_to_fit_def aws_mul_size_checked_def
        aws_mem_acquire_def allocator_at_def)
  have c4: "fst (snd (aws_array_list_shrink_to_fit (allocator_at 8192) empty_heap ?list1))
      = ?list2"
    by (simp add: aws_array_list_shrink_to_fit_def aws_mul_size_checked_def
        aws_mem_acquire_def allocator_at_def)
  from shrink_to_fit_exact [OF h1 h2 h3] h1 c2 c3 c4 show ?thesis
    by blast
qed

subsection \<open>Copying a cursor into a new buffer\<close>

lemma read_bytes_Suc: "read_bytes m p (Suc n) = m p # read_bytes m (p + 1) n"
proof -
  have "[0..<Suc n] = 0 # map Suc [0..<n]"
    by (simp add: upt_conv_Cons map_Suc_upt del: upt_Suc)
  then have "read_bytes m p (Suc n) = map (\<lambda>i. m (p + of_nat i)) (0 # map Suc [0..<n])"
    by (simp only: read_bytes_def)
  also have "\<dots> = m p # map (\<lambda>i. m (p + 1 + of_nat i)) [0..<n]"
    by (simp add: comp_def ac_simps)
  finally show ?thesis
    by (simp only: read_bytes_def)
qed

lemma memcmp_zero_iff: "memcmp m a b n = 0 \<longleftrightarrow> read_bytes m a n = read_bytes m b n"
proof (induction n arbitrary: a b)
  case 0
  show ?case by (simp add: read_bytes_def)
next
  case (Suc n)
  then show ?case by (simp add: read_bytes_Suc)
qed

lemma outside_disjoint_range:
  assumes "ranges_disjoint p n q k" and "j < unat k"
  shows "\<not> q + of_nat j - p < n"
proof -
  have bounds: "unat p < 2 ^ 64" "unat q < 2 ^ 64" "unat k < 2 ^ 64" "unat n < 2 ^ 64"
    using unsigned_less [of p] unsigned_less [of q] unsigned_less [of k] unsigned_less [of n]
    by simp_all
  from assms have "unat q + j < 2 ^ 64"
    using bounds by (auto simp add: ranges_disjoint_def)
  then have sum: "unat (q + of_nat j) = unat q + j"
    using bounds by (simp add: unat_word_ariths unat_of_nat)
  have "unat n \<le> unat (q + of_nat j - p)"
    using assms bounds sum
    by (auto simp add: ranges_disjoint_def unat_sub_if_size word_size)
  then show ?thesis
    by (simp add: word_less_nat_alt)
qed

lemma read_bytes_outside_memcpy:
  assumes "ranges_disjoint p n q k"
  shows "read_bytes (memcpy m p s n) q (unat k) = read_bytes m q (unat k)"
  unfolding read_bytes_def
  by (rule map_cong) (simp_all add: memcpy_def outside_disjoint_range [OF assms])

text \<open>
  C6, as the code has it. Let the allocator handle be non-null (the function asserts
  it). For a source cursor with a non-null pointer, when
  \<open>aws_byte_buf_init_copy_from_cursor\<close> succeeds, the new buffer has a non-null
  pointer, length and capacity equal to the source's length, and the allocator passed;
  the bytes \<open>aws_byte_cursor_from_buf\<close> views in it after the call are the bytes the
  source viewed before the call, and no byte outside the new block has changed. When
  the block the allocator handed out lies apart from the source's bytes, the source's
  bytes are unchanged too, and the view of the new buffer is equal, by
  \<open>aws_byte_cursor_eq\<close>, to the source. For a source cursor with a null pointer the
  call succeeds, the heap (and so the set of allocated blocks) is unchanged, and every
  field of the result is zero: length 0, allocator null.
\<close>

theorem init_copy_round_trip:
  assumes "allocator' \<noteq> 0"
  shows "(ptr src \<noteq> 0 \<longrightarrow>
        (\<forall>dest' h'.
           aws_byte_buf_init_copy_from_cursor acquire h dest allocator' src
             = Inr (AWS_OP_SUCCESS, dest', h')
           \<longrightarrow> buffer dest' \<noteq> 0 \<and> len_buf dest' = len src \<and> capacity dest' = len src
               \<and> allocator dest' = allocator'
               \<and> cursor_bytes (mem h') (aws_byte_cursor_from_buf dest') = cursor_bytes (mem h) src
               \<and> (\<forall>a. \<not> a - buffer dest' < len src \<longrightarrow> mem h' a = mem h a)
               \<and> (ranges_disjoint (buffer dest') (len src) (ptr src) (len src) \<longrightarrow>
                    cursor_bytes (mem h') src = cursor_bytes (mem h) src
                    \<and> aws_byte_cursor_eq (mem h') (Some (aws_byte_cursor_from_buf dest'))
                         (Some src))))
     \<and> (ptr src = 0 \<longrightarrow>
        aws_byte_buf_init_copy_from_cursor acquire h dest allocator' src
          = Inr (AWS_OP_SUCCESS, \<lparr>len_buf = 0, buffer = 0, capacity = 0, allocator = 0\<rparr>, h))"
proof (intro conjI impI allI)
  assume "ptr src = 0"
  with assms show "aws_byte_buf_init_copy_from_cursor acquire h dest allocator' src
      = Inr (AWS_OP_SUCCESS, \<lparr>len_buf = 0, buffer = 0, capacity = 0, allocator = 0\<rparr>, h)"
    by (simp add: aws_byte_buf_init_copy_from_cursor_def)
next
  fix dest' h'
  assume src: "ptr src \<noteq> 0"
    and run: "aws_byte_buf_init_copy_from_cursor acquire h dest allocator' src
      = Inr (AWS_OP_SUCCESS, dest', h')"
  obtain p h1 where acq: "aws_mem_acquire acquire h allocator' (len src) = (p, h1)"
    by (cases "aws_mem_acquire acquire h allocator' (len src)")
  then have h1: "mem h1 = mem h"
    by (auto simp add: aws_mem_acquire_def Let_def split: if_splits)
  from run src assms acq have p: "p \<noteq> 0"
    by (auto simp add: aws_byte_buf_init_copy_from_cursor_def AWS_OP_SUCCESS_def AWS_OP_ERR_def
        split: if_splits)
  with run src assms acq
  have dest': "dest' = \<lparr>len_buf = len src, buffer = p, capacity = len src, allocator = allocator'\<rparr>"
    and "mem h' = memcpy (mem h1) p (ptr src) (len src)"
    by (auto simp add: aws_byte_buf_init_copy_from_cursor_def)
  with h1 have h': "mem h' = memcpy (mem h) p (ptr src) (len src)"
    by simp
  from p dest' show "buffer dest' \<noteq> 0"
    by simp
  from dest' show "len_buf dest' = len src" "capacity dest' = len src"
    "allocator dest' = allocator'"
    by simp_all
  show copied: "cursor_bytes (mem h') (aws_byte_cursor_from_buf dest') = cursor_bytes (mem h) src"
    by (simp add: cursor_bytes_def aws_byte_cursor_from_buf_def dest' h' read_bytes_memcpy)
  show "\<not> a - buffer dest' < len src \<Longrightarrow> mem h' a = mem h a" for a
    by (simp add: dest' h' memcpy_def)
  assume "ranges_disjoint (buffer dest') (len src) (ptr src) (len src)"
  with dest' have apart: "ranges_disjoint p (len src) (ptr src) (len src)"
    by simp
  show kept: "cursor_bytes (mem h') src = cursor_bytes (mem h) src"
    by (simp add: cursor_bytes_def h' read_bytes_outside_memcpy [OF apart])
  from copied kept
  have "read_bytes (mem h') p (unat (len src)) = read_bytes (mem h') (ptr src) (unat (len src))"
    by (simp add: cursor_bytes_def aws_byte_cursor_from_buf_def dest')
  with p src show "aws_byte_cursor_eq (mem h') (Some (aws_byte_cursor_from_buf dest')) (Some src)"
    by (simp add: aws_byte_cursor_eq_def aws_byte_cursor_from_buf_def dest' memcmp_zero_iff)
qed

theorem init_copy_round_trip_witness:
  "(1 :: addr) \<noteq> 0
   \<and> ranges_disjoint 8192 2 4096 2
   \<and> (case aws_byte_buf_init_copy_from_cursor (allocator_at 8192)
             (empty_heap\<lparr>mem := store_bytes zero_memory 4096 (bytes_of ''hi'')\<rparr>)
             \<lparr>len_buf = 7, buffer = 7, capacity = 7, allocator = 7\<rparr> 1 \<lparr>len = 2, ptr = 4096\<rparr> of
         Inl e \<Rightarrow> False
       | Inr (rc, dest', h') \<Rightarrow>
           rc = AWS_OP_SUCCESS
           \<and> dest' = \<lparr>len_buf = 2, buffer = 8192, capacity = 2, allocator = 1\<rparr>
           \<and> cursor_bytes (mem h') (aws_byte_cursor_from_buf dest') = bytes_of ''hi''
           \<and> cursor_bytes (mem h') \<lparr>len = 2, ptr = 4096\<rparr> = bytes_of ''hi''
           \<and> aws_byte_cursor_eq (mem h') (Some (aws_byte_cursor_from_buf dest'))
                (Some \<lparr>len = 2, ptr = 4096\<rparr>))
   \<and> aws_byte_buf_init_copy_from_cursor failing_allocator empty_heap
        \<lparr>len_buf = 7, buffer = 7, capacity = 7, allocator = 7\<rparr> 1 \<lparr>len = 0, ptr = 0\<rparr>
      = Inr (AWS_OP_SUCCESS, \<lparr>len_buf = 0, buffer = 0, capacity = 0, allocator = 0\<rparr>, empty_heap)"
proof -
  let ?h = "empty_heap\<lparr>mem := store_bytes zero_memory 4096 (bytes_of ''hi'')\<rparr>"
  let ?dest = "\<lparr>len_buf = 7, buffer = 7, capacity = 7, allocator = 7\<rparr> :: aws_byte_buf"
  let ?dest' = "\<lparr>len_buf = 2, buffer = 8192, capacity = 2, allocator = 1\<rparr> :: aws_byte_buf"
  let ?src = "\<lparr>len = 2, ptr = 4096\<rparr>"
  let ?h' = "(?h\<lparr>blocks := (blocks ?h)(8192 \<mapsto> 2)\<rparr>)
      \<lparr>mem := memcpy (mem ?h) 8192 4096 2\<rparr>"
  have h1: "(1 :: addr) \<noteq> 0"
    by simp
  have h2: "ptr ?src \<noteq> 0"
    by simp
  have apart: "ranges_disjoint 8192 2 4096 2"
    by (simp add: ranges_disjoint_def)
  then have apart': "ranges_disjoint (buffer ?dest') (len ?src) (ptr ?src) (len ?src)"
    by simp
  have run: "aws_byte_buf_init_copy_from_cursor (allocator_at 8192) ?h ?dest 1 ?src
      = Inr (AWS_OP_SUCCESS, ?dest', ?h')"
    by (simp add: aws_byte_buf_init_copy_from_cursor_def aws_mem_acquire_def allocator_at_def)
  have before: "cursor_bytes (mem ?h) ?src = bytes_of ''hi''"
    by (simp add: cursor_bytes_def read_bytes_def bytes_of_def zero_memory_def upt_rec)
  note round_trip = init_copy_round_trip [OF h1, of ?src "allocator_at 8192" ?h ?dest]
  from round_trip h2 run
  have copied: "cursor_bytes (mem ?h') (aws_byte_cursor_from_buf ?dest') = cursor_bytes (mem ?h) ?src"
    by blast
  from round_trip h2 run apart'
  have kept: "cursor_bytes (mem ?h') ?src = cursor_bytes (mem ?h) ?src"
    and equal: "aws_byte_cursor_eq (mem ?h') (Some (aws_byte_cursor_from_buf ?dest')) (Some ?src)"
    by blast+
  have null_source: "aws_byte_buf_init_copy_from_cursor failing_allocator empty_heap ?dest 1
      \<lparr>len = 0, ptr = 0\<rparr>
      = Inr (AWS_OP_SUCCESS, \<lparr>len_buf = 0, buffer = 0, capacity = 0, allocator = 0\<rparr>, empty_heap)"
    using init_copy_round_trip [OF h1, of "\<lparr>len = 0, ptr = 0\<rparr>" failing_allocator empty_heap ?dest]
    by simp
  from copied kept before
  have "cursor_bytes (mem ?h') (aws_byte_cursor_from_buf ?dest') = bytes_of ''hi''"
    and "cursor_bytes (mem ?h') ?src = bytes_of ''hi''"
    by (simp_all only:)
  with equal null_source h1 apart show ?thesis
    by (simp only: run sum.case prod.case simp_thms)
qed

text \<open>
  The claim C6 as it is written fails for a call with a null allocator: the assertion
  \<open>assert(allocator)\<close> aborts it, also when the source cursor has a null pointer, so
  the call does not succeed.
\<close>

theorem init_copy_null_allocator_aborts:
  "aws_byte_buf_init_copy_from_cursor (allocator_at 8192) empty_heap
      \<lparr>len_buf = 7, buffer = 7, capacity = 7, allocator = 7\<rparr> 0 \<lparr>len = 0, ptr = 0\<rparr>
    = Inl Assertion_failed"
  by (simp add: aws_byte_buf_init_copy_from_cursor_def)

subsection \<open>Case-insensitive comparison and hashing\<close>

lemma table_as_map:
  "s_tolower_table = map (\<lambda>i. ascii_tolower (of_nat i)) [0..<256]"
proof -
  have "\<not> (65 :: u8) \<le> 1"
    by (simp add: word_le_nat_alt)
  then show ?thesis
    by (simp add: s_tolower_table_def ascii_tolower_def is_ascii_upper_def upt_rec)
qed

lemma table_length: "length s_tolower_table = 256"
  by (simp add: table_as_map)

lemma table_lookup: "s_tolower_table ! unat (b :: u8) = ascii_tolower b"
proof -
  have "unat b < 256"
    using unsigned_less [of b] by simp
  then show ?thesis
    by (simp add: table_as_map del: upt_Suc)
qed

lemma ascii_tolower_eq_iff:
  "ascii_tolower x = ascii_tolower y \<longleftrightarrow> equal_ignoring_ascii_case x y"
  unfolding ascii_tolower_def equal_ignoring_ascii_case_def is_ascii_upper_def
  by (auto simp add: word_le_nat_alt unat_word_ariths word_unat_eq_iff)

lemma eq_case_insensitive_loop_iff:
  "eq_case_insensitive_loop m a b i \<longleftrightarrow>
     (\<forall>j. i \<le> j \<and> j < len a \<longrightarrow>
        s_tolower_table ! unat (m (ptr a + j)) = s_tolower_table ! unat (m (ptr b + j)))"
proof (induction m a b i rule: eq_case_insensitive_loop.induct)
  case (1 m a b i)
  show ?case
  proof (cases "i < len a")
    case False
    then show ?thesis
      by (subst eq_case_insensitive_loop.simps) auto
  next
    case True
    then have "unat i < unat (len a)"
      by (simp add: word_less_nat_alt)
    moreover have "unat (len a) < 2 ^ 64"
      using unsigned_less [of "len a"] by simp
    ultimately have "unat (i + 1) = unat i + 1"
      by (simp add: unat_word_ariths)
    then have step: "\<And>j. (i \<le> j) = (j = i \<or> i + 1 \<le> j)"
      by (auto simp add: word_le_nat_alt word_unat_eq_iff)
    show ?thesis
    proof (cases "s_tolower_table ! unat (m (ptr a + i)) = s_tolower_table ! unat (m (ptr b + i))")
      case False
      with True show ?thesis
        by (subst eq_case_insensitive_loop.simps) auto
    next
      case same: True
      with True "1.IH" show ?thesis
        by (subst eq_case_insensitive_loop.simps) (auto simp add: step)
    qed
  qed
qed

lemma table_nth: "n < 256 \<Longrightarrow> s_tolower_table ! n = ascii_tolower (of_nat n)"
  by (simp add: table_as_map del: upt_Suc)

lemma mixed_case_example:
  "aws_byte_cursor_eq_case_insensitive
     (store_bytes (store_bytes zero_memory 4096 (bytes_of ''Hi'')) 8192 (bytes_of ''hI''))
     (Some \<lparr>len = 2, ptr = 4096\<rparr>) (Some \<lparr>len = 2, ptr = 8192\<rparr>)"
  by (simp add: aws_byte_cursor_eq_case_insensitive_def eq_case_insensitive_loop.simps
      table_nth ascii_tolower_def is_ascii_upper_def bytes_of_def zero_memory_def
      word_less_nat_alt)

text \<open>
  C8. The table has 256 entries; it maps the bytes 0x41 to 0x5A to the byte 0x20
  higher and every other byte, in particular every byte from 0x80 on, to itself. So
  \<open>aws_byte_cursor_eq_case_insensitive\<close> holds of two cursors exactly when they have
  the same length and, at every index, the two bytes are equal or are the two cases of
  one ASCII letter.
\<close>

theorem tolower_table_ascii_only:
  "length s_tolower_table = 256
   \<and> (\<forall>c :: u8. s_tolower_table ! unat c = (if 0x41 \<le> c \<and> c \<le> 0x5A then c + 0x20 else c))
   \<and> (\<forall>c :: u8. 0x80 \<le> c \<longrightarrow> s_tolower_table ! unat c = c)
   \<and> (aws_byte_cursor_eq_case_insensitive m (Some a) (Some b) \<longleftrightarrow>
        len a = len b
        \<and> (\<forall>i. i < len a \<longrightarrow> equal_ignoring_ascii_case (m (ptr a + i)) (m (ptr b + i))))"
proof (intro conjI allI impI)
  show "length s_tolower_table = 256"
    by (rule table_length)
next
  fix c :: u8
  show "s_tolower_table ! unat c = (if 0x41 \<le> c \<and> c \<le> 0x5A then c + 0x20 else c)"
    by (simp add: table_lookup ascii_tolower_def is_ascii_upper_def)
next
  fix c :: u8
  assume "0x80 \<le> c"
  then have "\<not> c \<le> 0x5A"
    by (simp add: word_le_nat_alt)
  then show "s_tolower_table ! unat c = c"
    by (simp add: table_lookup ascii_tolower_def is_ascii_upper_def)
next
  show "aws_byte_cursor_eq_case_insensitive m (Some a) (Some b) \<longleftrightarrow>
      len a = len b
      \<and> (\<forall>i. i < len a \<longrightarrow> equal_ignoring_ascii_case (m (ptr a + i)) (m (ptr b + i)))"
    by (simp add: aws_byte_cursor_eq_case_insensitive_def eq_case_insensitive_loop_iff
        table_lookup ascii_tolower_eq_iff)
qed

theorem tolower_table_ascii_only_witness:
  "s_tolower_table ! unat (0x48 :: u8) = 0x68
   \<and> s_tolower_table ! unat (0xC8 :: u8) = 0xC8
   \<and> equal_ignoring_ascii_case
        (store_bytes (store_bytes zero_memory 4096 (bytes_of ''Hi'')) 8192 (bytes_of ''hI'') 4096)
        (store_bytes (store_bytes zero_memory 4096 (bytes_of ''Hi'')) 8192 (bytes_of ''hI'') 8192)"
proof -
  let ?m = "store_bytes (store_bytes zero_memory 4096 (bytes_of ''Hi'')) 8192 (bytes_of ''hI'')"
  let ?a = "\<lparr>len = 2, ptr = 4096\<rparr>"
  let ?b = "\<lparr>len = 2, ptr = 8192\<rparr>"
  note table = tolower_table_ascii_only [of ?m ?a ?b]
  from table have "s_tolower_table ! unat (0x48 :: u8)
      = (if 0x41 \<le> (0x48 :: u8) \<and> (0x48 :: u8) \<le> 0x5A then 0x48 + 0x20 else 0x48)"
    by blast
  moreover have "(if 0x41 \<le> (0x48 :: u8) \<and> (0x48 :: u8) \<le> 0x5A then 0x48 + 0x20 else 0x48)
      = (0x68 :: u8)"
    by simp
  ultimately have upper: "s_tolower_table ! unat (0x48 :: u8) = 0x68"
    by (rule trans)
  have "(0x80 :: u8) \<le> 0xC8"
    by simp
  with table have high: "s_tolower_table ! unat (0xC8 :: u8) = 0xC8"
    by blast
  have "(0 :: size_t) < len ?a"
    by simp
  with table mixed_case_example
  have "equal_ignoring_ascii_case (?m (ptr ?a + 0)) (?m (ptr ?b + 0))"
    by blast
  then have "equal_ignoring_ascii_case (?m 4096) (?m 8192)"
    by simp
  with upper high show ?thesis
    by blast
qed

lemma hash_loop_fold:
  assumes "n < 2 ^ 64"
  shows "hash_loop m p (p + of_nat n) h
    = foldl (\<lambda>h c. (h XOR ucast c) * fnv_prime) h
        (map (\<lambda>c. s_tolower_table ! unat c) (read_bytes m p n))"
  using assms
proof (induction n arbitrary: p h)
  case 0
  show ?case
    by (subst hash_loop.simps) (simp add: read_bytes_def)
next
  case (Suc n)
  then have "unat (of_nat (Suc n) :: addr) = Suc n"
    by (simp add: unat_of_nat del: of_nat_Suc)
  then have "(of_nat (Suc n) :: addr) \<noteq> 0"
    by (metis unat_0 nat.distinct(1))
  then have differ: "p \<noteq> p + of_nat (Suc n)"
    by simp
  have next_end: "p + of_nat (Suc n) = p + 1 + of_nat n"
    by simp
  note differ' = differ [unfolded next_end]
  from Suc.prems have "n < 2 ^ 64"
    by simp
  note IH = Suc.IH [OF this]
  show ?case
    by (subst hash_loop.simps) (simp only: differ differ' if_True not_False_eq_True next_end IH
        read_bytes_Suc list.map foldl_Cons)
qed

lemma lowered_bytes_equal:
  assumes "aws_byte_cursor_eq_case_insensitive m (Some a) (Some b)"
  shows "map (\<lambda>c. s_tolower_table ! unat c) (read_bytes m (ptr a) (unat (len a)))
    = map (\<lambda>c. s_tolower_table ! unat c) (read_bytes m (ptr b) (unat (len a)))"
proof -
  from assms have "eq_case_insensitive_loop m a b 0"
    by (simp add: aws_byte_cursor_eq_case_insensitive_def split: if_splits)
  then have "\<And>i. i < unat (len a) \<Longrightarrow>
      s_tolower_table ! unat (m (ptr a + of_nat i)) = s_tolower_table ! unat (m (ptr b + of_nat i))"
    by (simp add: eq_case_insensitive_loop_iff of_nat_less_word)
  then show ?thesis
    by (simp add: read_bytes_def)
qed

text \<open>
  C7. Cursors that \<open>aws_byte_cursor_eq_case_insensitive\<close> finds equal have the same
  \<open>aws_hash_byte_cursor_ptr_case_insensitive\<close>.
\<close>

theorem case_insensitive_hash_congruence:
  assumes "aws_byte_cursor_eq_case_insensitive m (Some a) (Some b)"
  shows "aws_hash_byte_cursor_ptr_case_insensitive m a
    = aws_hash_byte_cursor_ptr_case_insensitive m b"
proof -
  from assms have same_len: "len a = len b"
    by (simp add: aws_byte_cursor_eq_case_insensitive_def split: if_splits)
  have bound: "unat (len a) < 2 ^ 64"
    using unsigned_less [of "len a"] by simp
  have "aws_hash_byte_cursor_ptr_case_insensitive m a
      = hash_loop m (ptr a) (ptr a + of_nat (unat (len a))) fnv_offset_basis"
    by (simp add: aws_hash_byte_cursor_ptr_case_insensitive_def)
  also have "\<dots> = foldl (\<lambda>h c. (h XOR ucast c) * fnv_prime) fnv_offset_basis
      (map (\<lambda>c. s_tolower_table ! unat c) (read_bytes m (ptr a) (unat (len a))))"
    by (rule hash_loop_fold [OF bound])
  also have "\<dots> = foldl (\<lambda>h c. (h XOR ucast c) * fnv_prime) fnv_offset_basis
      (map (\<lambda>c. s_tolower_table ! unat c) (read_bytes m (ptr b) (unat (len a))))"
    by (simp only: lowered_bytes_equal [OF assms])
  also have "\<dots> = hash_loop m (ptr b) (ptr b + of_nat (unat (len a))) fnv_offset_basis"
    by (rule hash_loop_fold [OF bound, symmetric])
  also have "\<dots> = aws_hash_byte_cursor_ptr_case_insensitive m b"
    by (simp add: aws_hash_byte_cursor_ptr_case_insensitive_def same_len)
  finally show ?thesis .
qed

theorem case_insensitive_hash_congruence_witness:
  "aws_byte_cursor_eq_case_insensitive
     (store_bytes (store_bytes zero_memory 4096 (bytes_of ''Hi'')) 8192 (bytes_of ''hI''))
     (Some \<lparr>len = 2, ptr = 4096\<rparr>) (Some \<lparr>len = 2, ptr = 8192\<rparr>)
   \<and> aws_hash_byte_cursor_ptr_case_insensitive
       (store_bytes (store_bytes zero_memory 4096 (bytes_of ''Hi'')) 8192 (bytes_of ''hI''))
       \<lparr>len = 2, ptr = 4096\<rparr>
     = aws_hash_byte_cursor_ptr_case_insensitive
       (store_bytes (store_bytes zero_memory 4096 (bytes_of ''Hi'')) 8192 (bytes_of ''hI''))
       \<lparr>len = 2, ptr = 8192\<rparr>"
  using case_insensitive_hash_congruence [OF mixed_case_example] mixed_case_example
  by (rule_tac conjI)

end
